theory Spec2Isabelle
  imports Main "HOL-Library.AList"
begin

section \<open>IHKScraper: a shallow embedding of scripts/IHKScraper/extractToken.py\<close>

text \<open>
  The scraper drives a Chrome browser through a login, reads a bearer token out of the
  browser's performance log, copies the browser's cookies into a \<open>requests\<close> session and
  then calls an HTTP API. The browser and the network are outside the program: every call
  the program makes on them is recorded, in order, in a trace, and what the call answers
  (an element, a log, an exception) is read from a record of outcomes, one field per call
  site of the source. Exceptions are values: every method returns its outcome together
  with the scraper as the call left it. Logging is left out: no \<open>logger\<close> call of the
  source changes a field or the control flow.
\<close>

subsection \<open>Configuration (class IHKConfig)\<close>

record IHKConfig =
  base_url :: string
  api_base_url :: string
  username :: string
  password :: string
  ihk_nummer :: string
  organisation_nummer :: string
  headless :: bool
  window_size :: string
  user_agent :: string

text \<open>The dataclass defaults, with the two credentials the caller supplies.\<close>

definition default_config :: "string \<Rightarrow> string \<Rightarrow> IHKConfig" where
  "default_config u p =
     \<lparr> base_url = ''https://bildung.ihk.de'',
       api_base_url = ''https://service.ihk.de/anwender/anwender-api/v1'',
       username = u,
       password = p,
       ihk_nummer = ''108'',
       organisation_nummer = ''560628108'',
       headless = True,
       window_size = ''1920,1080'',
       user_agent = ''Mozilla/5.0 (X11; Linux x86_64) AppleWebKit/537.36 (KHTML, like Gecko) Chrome/134.0.0.0 Safari/537.36'' \<rparr>"

subsection \<open>Exceptions\<close>

text \<open>
  The selenium exceptions the source imports, and the exceptions a method of the scraper
  can end with. \<open>ValueError\<close> carries its message: the source raises it at three places,
  told apart by the message only.
\<close>

datatype browser_exn =
    TimeoutException
  | NoSuchElementException
  | WebDriverException string

datatype json =
    JNull
  | JBool bool
  | JNum int
  | JStr string
  | JArr "json list"
  | JObj "(string \<times> json) list"

record response =
  status_code :: int
  text_body :: string
  json_body :: "json option"

datatype error =
    ValueError string
  | Selenium browser_exn
  | RequestException string
  | HTTPError response
  | JSONDecodeError
  | AttributeError string

subsection \<open>The browser, the HTTP session and the trace of calls\<close>

type_synonym dict = "(string \<times> string) list"

record chrome_options =
  arguments :: "string list"
  capabilities :: "(string \<times> dict) list"

datatype chrome = Chrome chrome_options

record browser_cookie =
  cookie_name :: string
  cookie_value :: string
  cookie_domain :: string

record http_session =
  cookies :: dict

record kwargs =
  kw_headers :: "dict option"
  kw_other :: dict

datatype event =
    Launch chrome_options
  | Get string
  | WaitClickable string string nat
  | WaitPresent string string nat
  | FindElement string string
  | Click string
  | SendKeys string string
  | Sleep nat
  | GetLog string
  | GetCookies
  | SaveScreenshot string
  | Quit
  | SessionClose
  | Request string string dict kwargs

text \<open>
  What the outside answers, one field per call site of the source, in the order the
  source reaches them. \<open>None\<close> is a call that returns; \<open>Some x\<close> is a call that raises
  \<open>x\<close>. \<open>chrome_start\<close> is the message of whatever \<open>webdriver.Chrome\<close> raised.
  \<open>performance_log\<close> is \<open>json.dumps(driver.get_log("performance"))\<close>, the serialized log.
\<close>

record world =
  chrome_start :: "string option"
  get_home :: "browser_exn option"
  wait_consent :: "browser_exn option"
  click_consent :: "browser_exn option"
  wait_login_link :: "browser_exn option"
  click_login_link :: "browser_exn option"
  wait_username :: "browser_exn option"
  send_username :: "browser_exn option"
  find_continue :: "browser_exn option"
  click_continue :: "browser_exn option"
  wait_password :: "browser_exn option"
  send_password :: "browser_exn option"
  find_submit :: "browser_exn option"
  click_submit :: "browser_exn option"
  get_check_page :: "browser_exn option"
  performance_log :: "browser_exn + string"
  browser_cookies :: "browser_exn + browser_cookie list"
  save_screenshot :: "browser_exn option"
  http :: "string + response"

subsection \<open>The scraper (class IHKScraper)\<close>

record scraper =
  config :: IHKConfig
  driver :: "chrome option"
  session :: "http_session option"
  bearer_token :: "string option"
  trace :: "event list"

text \<open>\<open>__init__\<close>: nothing launched, no session, no token, nothing called yet.\<close>

definition init :: "IHKConfig \<Rightarrow> scraper" where
  "init c = \<lparr> config = c, driver = None, session = None, bearer_token = None, trace = [] \<rparr>"

type_synonym 'a outcome = "(error + 'a) \<times> scraper"

text \<open>One call on the browser: it is recorded whether it returns or raises.\<close>

definition call :: "event \<Rightarrow> browser_exn option \<Rightarrow> scraper \<Rightarrow> unit outcome" where
  "call ev out s =
     ((case out of None \<Rightarrow> Inr () | Some x \<Rightarrow> Inl (Selenium x)),
      s\<lparr>trace := trace s @ [ev]\<rparr>)"

text \<open>A straight-line sequence of calls: the first one that raises ends it.\<close>

fun calls :: "(event \<times> browser_exn option) list \<Rightarrow> scraper \<Rightarrow> unit outcome" where
  "calls [] s = (Inr (), s)"
| "calls ((ev, out) # rest) s =
     (case call ev out s of
        (Inl e, s') \<Rightarrow> (Inl e, s')
      | (Inr _, s') \<Rightarrow> calls rest s')"

definition bind :: "(scraper \<Rightarrow> 'a outcome) \<Rightarrow> ('a \<Rightarrow> scraper \<Rightarrow> 'b outcome) \<Rightarrow> scraper \<Rightarrow> 'b outcome" where
  "bind m f s = (case m s of (Inl e, s') \<Rightarrow> (Inl e, s') | (Inr a, s') \<Rightarrow> f a s')"

subsubsection \<open>\<open>_setup_browser\<close>\<close>

definition browser_options :: "IHKConfig \<Rightarrow> chrome_options" where
  "browser_options c =
     \<lparr> arguments =
         (if headless c then [''--headless''] else []) @
         [''--no-sandbox'', ''--disable-dev-shm-usage'', ''--disable-gpu'',
          ''--window-size='' @ window_size c,
          ''--user-agent='' @ user_agent c],
       capabilities = [(''goog:loggingPrefs'', [(''performance'', ''ALL'')])] \<rparr>"

definition setup_browser :: "world \<Rightarrow> scraper \<Rightarrow> chrome outcome" where
  "setup_browser w s =
     (let opts = browser_options (config s);
          s' = s\<lparr>trace := trace s @ [Launch opts]\<rparr>
      in case chrome_start w of
           None \<Rightarrow> (Inr (Chrome opts), s')
         | Some msg \<Rightarrow>
             (Inl (Selenium (WebDriverException (''Browser initialization failed: '' @ msg))), s'))"

subsubsection \<open>\<open>_accept_cookies\<close>\<close>

definition consent_xpath :: string where
  "consent_xpath = ''//button[contains(., 'Alle akzeptieren')]''"

text \<open>The \<open>try\<close> covers the wait and the click; only \<open>TimeoutException\<close> is caught.\<close>

definition accept_cookies :: "world \<Rightarrow> scraper \<Rightarrow> unit outcome" where
  "accept_cookies w s =
     (case calls [(WaitClickable ''xpath'' consent_xpath 3, wait_consent w),
                  (Click consent_xpath, click_consent w)] s of
        (Inl (Selenium TimeoutException), s') \<Rightarrow> (Inr (), s')
      | r \<Rightarrow> r)"

subsubsection \<open>\<open>_perform_login\<close>\<close>

definition login_xpath :: string where
  "login_xpath = ''//a[contains(., 'Jetzt anmelden!')]''"

definition credentials_missing :: string where
  "credentials_missing = ''Username and password must be provided''"

text \<open>Both \<open>except\<close> clauses log and re-raise, so the sequence ends with what was raised.\<close>

definition perform_login :: "world \<Rightarrow> scraper \<Rightarrow> unit outcome" where
  "perform_login w s =
     (if username (config s) = [] \<or> password (config s) = []
      then (Inl (ValueError credentials_missing), s)
      else calls
        [(WaitClickable ''xpath'' login_xpath 10, wait_login_link w),
         (Click login_xpath, click_login_link w),
         (WaitPresent ''id'' ''username'' 10, wait_username w),
         (SendKeys ''username'' (username (config s)), send_username w),
         (FindElement ''id'' ''kc-login'', find_continue w),
         (Click ''kc-login'', click_continue w),
         (WaitPresent ''id'' ''password'' 10, wait_password w),
         (SendKeys ''password'' (password (config s)), send_password w),
         (FindElement ''id'' ''kc-login'', find_submit w),
         (Click ''kc-login'', click_submit w)] s)"

subsubsection \<open>\<open>_extract_bearer_token\<close>\<close>

text \<open>
  \<open>re.search(r'Bearer ([A-Za-z0-9\-_\.]+)', log_data)\<close>: the pattern is tried at every
  position from the left; at a position it matches when the text there is \<open>Bearer \<close>
  followed by at least one character of the class, and group 1 is the longest run of
  such characters (the quantifier is greedy and nothing follows it).
\<close>

definition token_char :: "char \<Rightarrow> bool" where
  "token_char c =
     (c \<in> set ''ABCDEFGHIJKLMNOPQRSTUVWXYZabcdefghijklmnopqrstuvwxyz0123456789-_.'')"

definition match_here :: "string \<Rightarrow> string option" where
  "match_here s =
     (if take 7 s = ''Bearer '' \<and> takeWhile token_char (drop 7 s) \<noteq> []
      then Some (takeWhile token_char (drop 7 s)) else None)"

fun re_search :: "string \<Rightarrow> string option" where
  "re_search [] = None"
| "re_search (c # cs) =
     (case match_here (c # cs) of Some t \<Rightarrow> Some t | None \<Rightarrow> re_search cs)"

definition no_token_found :: string where
  "no_token_found = ''No bearer token found in performance logs''"

definition extract_bearer_token :: "world \<Rightarrow> scraper \<Rightarrow> string outcome" where
  "extract_bearer_token w s =
     (case calls [(Get (base_url (config s) @ ''/service/berufsbilder-check''), get_check_page w),
                  (Sleep 5, None)] s of
        (Inl e, s1) \<Rightarrow> (Inl e, s1)
      | (Inr _, s1) \<Rightarrow>
          (let s2 = s1\<lparr>trace := trace s1 @ [GetLog ''performance'']\<rparr>
           in case performance_log w of
                Inl x \<Rightarrow> (Inl (Selenium x), s2)
              | Inr log_data \<Rightarrow>
                  (case re_search log_data of
                     Some token \<Rightarrow> (Inr token, s2)
                   | None \<Rightarrow> (Inl (ValueError no_token_found), s2))))"

subsubsection \<open>\<open>_setup_session\<close>\<close>

text \<open>
  \<open>session.cookies.set(name, value)\<close> for every browser cookie, in order: a name set
  twice keeps its place and takes the later value.
\<close>

definition cookies_set :: "dict \<Rightarrow> browser_cookie \<Rightarrow> dict" where
  "cookies_set jar c = AList.update (cookie_name c) (cookie_value c) jar"

definition setup_session :: "world \<Rightarrow> scraper \<Rightarrow> http_session outcome" where
  "setup_session w s =
     (let s' = s\<lparr>trace := trace s @ [GetCookies]\<rparr>
      in case browser_cookies w of
           Inl x \<Rightarrow> (Inl (Selenium x), s')
         | Inr cs \<Rightarrow> (Inr \<lparr>cookies = foldl cookies_set [] cs\<rparr>, s'))"

subsubsection \<open>\<open>_save_error_screenshot\<close> and \<open>authenticate\<close>\<close>

text \<open>The screenshot is taken only with a driver, and whatever it raises is dropped.\<close>

definition save_error_screenshot :: "world \<Rightarrow> scraper \<Rightarrow> scraper" where
  "save_error_screenshot w s =
     (if driver s \<noteq> None
      then snd (call (SaveScreenshot ''error_screenshot.png'') (save_screenshot w) s)
      else s)"

text \<open>
  The \<open>try\<close> block of \<open>authenticate\<close>, written in two parts: from the login to the
  session, and before it the launch, the homepage and the consent step.
\<close>

definition login_and_harvest :: "world \<Rightarrow> scraper \<Rightarrow> unit outcome" where
  "login_and_harvest w =
     bind (perform_login w) (\<lambda>_.
     bind (extract_bearer_token w) (\<lambda>token s2.
     bind (setup_session w) (\<lambda>sess s3.
       (Inr (), s3\<lparr>session := Some sess\<rparr>))
       (s2\<lparr>bearer_token := Some token\<rparr>)))"

definition authenticate_body :: "world \<Rightarrow> scraper \<Rightarrow> unit outcome" where
  "authenticate_body w =
     bind (setup_browser w) (\<lambda>d s1.
     bind (call (Get (base_url (config s1))) (get_home w)) (\<lambda>_.
     bind (accept_cookies w) (\<lambda>_. login_and_harvest w))
       (s1\<lparr>driver := Some d\<rparr>))"

definition authenticate :: "world \<Rightarrow> scraper \<Rightarrow> unit outcome" where
  "authenticate w s =
     (case authenticate_body w s of
        (Inl e, s') \<Rightarrow> (Inl e, save_error_screenshot w s')
      | (Inr u, s') \<Rightarrow> (Inr u, s'))"

subsubsection \<open>\<open>api_request\<close>\<close>

definition not_authenticated :: string where
  "not_authenticated = ''Must authenticate before making API requests''"

definition fixed_headers :: "IHKConfig \<Rightarrow> string \<Rightarrow> dict" where
  "fixed_headers c token =
     [(''Accept'', ''application/json''),
      (''Authorization'', ''Bearer '' @ token),
      (''Referer'', base_url c @ ''/''),
      (''X-Bereich-Intern-Extern'', ''extern''),
      (''X-Ex-Abb'', ''false''),
      (''X-Ihk-Nummer'', ihk_nummer c),
      (''X-Organisation-Nummer-Lang'', organisation_nummer c),
      (''User-Agent'', user_agent c)]"

text \<open>
  \<open>dict.update\<close>: every item of the other dict is stored in turn; a key already present
  keeps its place and takes the new value, a new key goes to the end.
\<close>

definition dict_update :: "dict \<Rightarrow> dict \<Rightarrow> dict" where
  "dict_update d other = fold (\<lambda>(k, v). AList.update k v) other d"

text \<open>
  The guard is \<open>not self.session or not self.bearer_token\<close>: a \<open>requests.Session\<close> is
  always true, so the first half asks for a session to be there; a string is true when
  it is not empty. The headers of \<open>kwargs\<close> are popped before the rest is passed on.
\<close>

definition api_request :: "world \<Rightarrow> string \<Rightarrow> string \<Rightarrow> kwargs \<Rightarrow> scraper \<Rightarrow> response outcome" where
  "api_request w endpoint method kw s =
     (case (session s, bearer_token s) of
        (Some sess, Some token) \<Rightarrow>
          (if token = [] then (Inl (ValueError not_authenticated), s)
           else
             (let url = api_base_url (config s) @ ''/'' @ endpoint;
                  headers = (case kw_headers kw of
                               None \<Rightarrow> fixed_headers (config s) token
                             | Some h \<Rightarrow> dict_update (fixed_headers (config s) token) h);
                  s' = s\<lparr>trace := trace s @ [Request method url headers (kw\<lparr>kw_headers := None\<rparr>)]\<rparr>
              in case http w of
                   Inl msg \<Rightarrow> (Inl (RequestException msg), s')
                 | Inr r \<Rightarrow> (Inr r, s')))
      | _ \<Rightarrow> (Inl (ValueError not_authenticated), s))"

subsubsection \<open>\<open>get_berufsbilder_check\<close>\<close>

text \<open>
  \<open>Response.raise_for_status\<close> of the requests library raises \<open>HTTPError\<close>, with the
  response attached, for a status from 400 to 599 and returns \<open>None\<close> for any other.
  \<open>Response.json\<close> raises when the body is not JSON.
\<close>

definition raise_for_status :: "response \<Rightarrow> error + unit" where
  "raise_for_status r =
     (if 400 \<le> status_code r \<and> status_code r < 600 then Inl (HTTPError r) else Inr ())"

definition response_json :: "response \<Rightarrow> error + json" where
  "response_json r = (case json_body r of None \<Rightarrow> Inl JSONDecodeError | Some j \<Rightarrow> Inr j)"

text \<open>
  A Python function that ends without \<open>return\<close> returns \<open>None\<close>, which is \<open>JNull\<close> here.
\<close>

definition no_kwargs :: kwargs where
  "no_kwargs = \<lparr> kw_headers = None, kw_other = [] \<rparr>"

definition get_berufsbilder_check :: "world \<Rightarrow> scraper \<Rightarrow> json outcome" where
  "get_berufsbilder_check w s =
     (case api_request w ''anwender/berufsbilder/check'' ''GET'' no_kwargs s of
        (Inl e, s') \<Rightarrow> (Inl e, s')
      | (Inr r, s') \<Rightarrow>
          (if status_code r = 200
           then (response_json r, s')
           else (case raise_for_status r of
                   Inl e \<Rightarrow> (Inl e, s')
                 | Inr _ \<Rightarrow> (Inr JNull, s'))))"

subsubsection \<open>\<open>close\<close>\<close>

text \<open>
  \<open>driver.quit()\<close> of the Chrome driver catches whatever the shutdown raises, and
  \<open>Session.close()\<close> only clears the connection pools: neither call has an outcome to
  read, so each is a recorded event. What \<open>close\<close> itself decides is whether to make the
  call: on \<open>None\<close> the call would be an attribute lookup on \<open>None\<close>.
\<close>

definition driver_quit :: "chrome option \<Rightarrow> scraper \<Rightarrow> unit outcome" where
  "driver_quit d s =
     (case d of
        None \<Rightarrow> (Inl (AttributeError ''quit''), s)
      | Some _ \<Rightarrow> (Inr (), s\<lparr>trace := trace s @ [Quit]\<rparr>))"

definition session_close :: "http_session option \<Rightarrow> scraper \<Rightarrow> unit outcome" where
  "session_close x s =
     (case x of
        None \<Rightarrow> (Inl (AttributeError ''close''), s)
      | Some _ \<Rightarrow> (Inr (), s\<lparr>trace := trace s @ [SessionClose]\<rparr>))"

definition close :: "scraper \<Rightarrow> unit outcome" where
  "close s =
     (case (if driver s \<noteq> None then driver_quit (driver s) s else (Inr (), s)) of
        (Inl e, s1) \<Rightarrow> (Inl e, s1)
      | (Inr _, s1) \<Rightarrow>
          (if session s1 \<noteq> None then session_close (session s1) s1 else (Inr (), s1)))"

subsection \<open>Notions used in the statements\<close>

text \<open>A step that changed nothing of the scraper but the trace, which it only extended.\<close>

definition only_trace :: "scraper \<Rightarrow> scraper \<Rightarrow> bool" where
  "only_trace s s' = (\<exists>t. s' = s\<lparr>trace := trace s @ t\<rparr>)"

text \<open>
  The bearer pattern occurs at position \<open>i\<close> of a text: the seven characters \<open>Bearer \<close>
  are there and a character of the class follows them.
\<close>

definition bearer_at :: "string \<Rightarrow> nat \<Rightarrow> bool" where
  "bearer_at log i =
     (take 7 (drop i log) = ''Bearer '' \<and> i + 7 < length log \<and> token_char (log ! (i + 7)))"



text \<open>A browser and a network where every call returns.\<close>

definition ok_world :: "string \<Rightarrow> browser_cookie list \<Rightarrow> response \<Rightarrow> world" where
  "ok_world log cs r =
     \<lparr> chrome_start = None, get_home = None, wait_consent = None, click_consent = None,
       wait_login_link = None, click_login_link = None, wait_username = None,
       send_username = None, find_continue = None, click_continue = None,
       wait_password = None, send_password = None, find_submit = None, click_submit = None,
       get_check_page = None, performance_log = Inr log, browser_cookies = Inr cs,
       save_screenshot = None, http = Inr r \<rparr>"

text \<open>
  A serialized performance log with one request header in it. Inside the \<open>message\<close>
  string \<open>json.dumps\<close> writes every quote as a backslash and a quote.
\<close>

definition esc_quote :: string where
  "esc_quote = [CHR 0x5C, CHR 0x22]"

definition demo_log :: string where
  "demo_log =
     ''[{\"level\": \"INFO\", \"message\": \"{'' @ esc_quote @ ''Authorization'' @ esc_quote
       @ '': '' @ esc_quote @ ''Bearer abc.def-123_ABC'' @ esc_quote @ ''}\"}]''"

definition demo_response :: response where
  "demo_response = \<lparr> status_code = 200, text_body = ''{}'', json_body = Some (JObj []) \<rparr>"

definition demo_world :: world where
  "demo_world = ok_world demo_log [] demo_response"

definition demo_scraper :: scraper where
  "demo_scraper = init (default_config ''azubi'' ''geheim'')"

definition two_token_log :: string where
  "two_token_log =
     ''GET /a Authorization: Bearer first.tok-1 | GET /b Authorization: Bearer second_tok.2 |''"



text \<open>The scraper after the run in which every call returned.\<close>

definition authenticated_scraper :: scraper where
  "authenticated_scraper = snd (authenticate demo_world demo_scraper)"

text \<open>A response without content: status 204, empty body.\<close>

definition no_content :: response where
  "no_content = \<lparr> status_code = 204, text_body = [], json_body = None \<rparr>"

text \<open>
  The consent step returns normally: the control was found and clicked, or one of the two
  calls raised the \<open>TimeoutException\<close> that the step catches.
\<close>

definition consent_passes :: "world \<Rightarrow> bool" where
  "consent_passes w =
     (wait_consent w = Some TimeoutException \<or>
      (wait_consent w = None \<and>
       (click_consent w = None \<or> click_consent w = Some TimeoutException)))"

text \<open>The consent banner never shows; everything else answers.\<close>

definition banner_absent_world :: world where
  "banner_absent_world = demo_world\<lparr>wait_consent := Some TimeoutException\<rparr>"


section \<open>Properties\<close>

subsection \<open>Steps of the flow change the trace only\<close>

lemma only_trace_refl: "only_trace s s"
  by (auto simp: only_trace_def intro: exI [of _ "[]"])

lemma only_trace_trans: "only_trace s s1 \<Longrightarrow> only_trace s1 s2 \<Longrightarrow> only_trace s s2"
  by (auto simp: only_trace_def)

lemma call_only_trace: "only_trace s (snd (call ev out s))"
  by (auto simp: only_trace_def call_def)

lemma calls_only_trace: "only_trace s (snd (calls cs s))"
proof (induction cs arbitrary: s)
  case Nil
  show ?case by (simp add: only_trace_refl)
next
  case (Cons p cs)
  obtain ev out where p: "p = (ev, out)" by (cases p)
  show ?case
  proof (cases out)
    case None
    have "only_trace s (snd (call ev None s))" by (rule call_only_trace)
    moreover have "only_trace (snd (call ev None s)) (snd (calls cs (snd (call ev None s))))"
      by (rule Cons.IH)
    ultimately have "only_trace s (snd (calls cs (snd (call ev None s))))"
      by (rule only_trace_trans)
    then show ?thesis using p None by (simp add: call_def)
  next
    case (Some x)
    then show ?thesis using p call_only_trace [of s ev out] by (simp add: call_def)
  qed
qed

lemma call_frame: "call ev out s = (r, s') \<Longrightarrow> only_trace s s'"
  using call_only_trace [of s ev out] by simp

lemma calls_frame: "calls cs s = (r, s') \<Longrightarrow> only_trace s s'"
  using calls_only_trace [of s cs] by simp

lemma setup_browser_frame: "setup_browser w s = (r, s') \<Longrightarrow> only_trace s s'"
  by (auto simp: setup_browser_def Let_def only_trace_def split: option.splits)

lemma accept_cookies_frame: "accept_cookies w s = (r, s') \<Longrightarrow> only_trace s s'"
  unfolding accept_cookies_def
  by (auto simp del: calls.simps dest: calls_frame
        split: prod.splits sum.splits error.splits browser_exn.splits)

lemma perform_login_frame: "perform_login w s = (r, s') \<Longrightarrow> only_trace s s'"
  unfolding perform_login_def
  by (auto simp add: only_trace_refl simp del: calls.simps dest: calls_frame split: if_splits)

lemma extract_frame: "extract_bearer_token w s = (r, s') \<Longrightarrow> only_trace s s'"
proof -
  let ?s1 = "snd (calls [(Get (base_url (config s) @ ''/service/berufsbilder-check''), get_check_page w),
                  (Sleep 5, None)] s)"
  have 1: "only_trace s ?s1" by (rule calls_only_trace)
  have 2: "only_trace ?s1 (?s1\<lparr>trace := trace ?s1 @ [GetLog ''performance'']\<rparr>)"
    by (auto simp: only_trace_def)
  assume "extract_bearer_token w s = (r, s')"
  then have "s' = ?s1 \<or> s' = ?s1\<lparr>trace := trace ?s1 @ [GetLog ''performance'']\<rparr>"
    unfolding extract_bearer_token_def
    by (auto simp add: Let_def simp del: calls.simps split: prod.splits sum.splits option.splits)
  then show ?thesis using 1 only_trace_trans [OF 1 2] by auto
qed

lemma setup_session_frame: "setup_session w s = (r, s') \<Longrightarrow> only_trace s s'"
  by (auto simp: setup_session_def Let_def only_trace_def split: sum.splits)

subsection \<open>What a successful authentication leaves behind\<close>

lemma re_search_nonempty: "re_search s = Some t \<Longrightarrow> t \<noteq> []"
  by (induction s) (auto simp: match_here_def split: if_splits option.splits)

lemma extract_token_nonempty: "fst (extract_bearer_token w s) = Inr t \<Longrightarrow> t \<noteq> []"
  unfolding extract_bearer_token_def
  by (auto simp add: Let_def simp del: calls.simps
        split: prod.splits sum.splits option.splits dest: re_search_nonempty)

lemma authenticate_success:
  assumes "fst (authenticate w s) = Inr ()"
  shows "\<exists>d tok sess t. tok \<noteq> [] \<and>
           snd (authenticate w s) =
             s\<lparr>driver := Some d, bearer_token := Some tok, session := Some sess,
               trace := trace s @ t\<rparr>"
proof -
  from assms have body: "fst (authenticate_body w s) = Inr ()"
    and same: "snd (authenticate w s) = snd (authenticate_body w s)"
    by (auto simp: authenticate_def split: prod.splits sum.splits)
  from body obtain d s1 s2 s3 s4 tok s5 sess s6 where
    a: "setup_browser w s = (Inr d, s1)"
    and b: "call (Get (base_url (config s1))) (get_home w) (s1\<lparr>driver := Some d\<rparr>) = (Inr (), s2)"
    and c: "accept_cookies w s2 = (Inr (), s3)"
    and d: "perform_login w s3 = (Inr (), s4)"
    and e: "extract_bearer_token w s4 = (Inr tok, s5)"
    and f: "setup_session w (s5\<lparr>bearer_token := Some tok\<rparr>) = (Inr sess, s6)"
    and g: "snd (authenticate_body w s) = s6\<lparr>session := Some sess\<rparr>"
    by (auto simp: authenticate_body_def login_and_harvest_def bind_def split: prod.splits sum.splits)
  from e have tok: "tok \<noteq> []" using extract_token_nonempty [of w s4 tok] by simp
  from a obtain t1 where 1: "s1 = s\<lparr>trace := trace s @ t1\<rparr>"
    by (auto dest!: setup_browser_frame simp: only_trace_def)
  from b obtain t2 where 2: "s2 = (s1\<lparr>driver := Some d\<rparr>)\<lparr>trace := trace s1 @ t2\<rparr>"
    by (auto dest!: call_frame simp: only_trace_def)
  from c obtain t3 where 3: "s3 = s2\<lparr>trace := trace s2 @ t3\<rparr>"
    by (auto dest!: accept_cookies_frame simp: only_trace_def)
  from d obtain t4 where 4: "s4 = s3\<lparr>trace := trace s3 @ t4\<rparr>"
    by (auto dest!: perform_login_frame simp: only_trace_def)
  from e obtain t5 where 5: "s5 = s4\<lparr>trace := trace s4 @ t5\<rparr>"
    by (auto dest!: extract_frame simp: only_trace_def)
  from f obtain t6 where 6: "s6 = (s5\<lparr>bearer_token := Some tok\<rparr>)\<lparr>trace := trace s5 @ t6\<rparr>"
    by (auto dest!: setup_session_frame simp: only_trace_def)
  have "snd (authenticate w s) =
      s\<lparr>driver := Some d, bearer_token := Some tok, session := Some sess,
        trace := trace s @ (t1 @ t2 @ t3 @ t4 @ t5 @ t6)\<rparr>"
    by (simp add: same g 1 2 3 4 5 6)
  with tok show ?thesis by blast
qed

text \<open>The run used by the examples below: every call returns and the log holds one token.\<close>

lemma demo_authenticate:
  "authenticate demo_world demo_scraper =
     (Inr (),
      \<lparr> config = default_config ''azubi'' ''geheim'',
        driver = Some (Chrome (browser_options (default_config ''azubi'' ''geheim''))),
        session = Some \<lparr>cookies = []\<rparr>,
        bearer_token = Some ''abc.def-123_ABC'',
        trace =
          [Launch (browser_options (default_config ''azubi'' ''geheim'')),
           Get ''https://bildung.ihk.de'',
           WaitClickable ''xpath'' consent_xpath 3,
           Click consent_xpath,
           WaitClickable ''xpath'' login_xpath 10,
           Click login_xpath,
           WaitPresent ''id'' ''username'' 10,
           SendKeys ''username'' ''azubi'',
           FindElement ''id'' ''kc-login'',
           Click ''kc-login'',
           WaitPresent ''id'' ''password'' 10,
           SendKeys ''password'' ''geheim'',
           FindElement ''id'' ''kc-login'',
           Click ''kc-login'',
           Get ''https://bildung.ihk.de/service/berufsbilder-check'',
           Sleep 5,
           GetLog ''performance'',
           GetCookies] \<rparr>)"
  by (simp add: authenticate_def authenticate_body_def login_and_harvest_def bind_def setup_browser_def call_def
        accept_cookies_def perform_login_def extract_bearer_token_def setup_session_def
        demo_world_def demo_scraper_def demo_log_def esc_quote_def ok_world_def init_def
        match_here_def token_char_def Let_def default_config_def)

subsection \<open>The guard of \<open>api_request\<close>\<close>

text \<open>
  C7. Called before authentication has completed, that is with no HTTP session or with no
  bearer token (absent or empty), \<open>api_request\<close> raises the \<open>ValueError\<close> of the guard and
  issues no network request: the scraper, and with it the trace of calls, is returned as
  it was.
\<close>

theorem api_request_before_authentication:
  "session s = None \<or> bearer_token s = None \<or> bearer_token s = Some [] \<Longrightarrow>
     api_request w endpoint method kw s = (Inl (ValueError not_authenticated), s)"
  by (auto simp: api_request_def split: option.splits)

theorem api_request_before_authentication_witness:
  "session (init (default_config ''azubi'' ''geheim'')) = None \<and>
   api_request demo_world ''anwender/berufsbilder/check'' ''GET'' no_kwargs
       (init (default_config ''azubi'' ''geheim''))
     = (Inl (ValueError not_authenticated), init (default_config ''azubi'' ''geheim'')) \<and>
   trace (init (default_config ''azubi'' ''geheim'')) = []"
proof -
  have h: "session (init (default_config ''azubi'' ''geheim'')) = None"
    by (simp add: init_def)
  show ?thesis
    using h api_request_before_authentication
      [of "init (default_config ''azubi'' ''geheim'')" demo_world
          "''anwender/berufsbilder/check''" "''GET''" no_kwargs]
    by (simp add: init_def)
qed

subsection \<open>\<open>close\<close>\<close>

text \<open>
  C9. \<open>close\<close> raises no error, in whatever state it is called: not when it is called a
  second time right after a first call, and not when the browser launch never succeeded
  and neither driver nor session is there, where it does nothing at all. That covers the
  state a failed launch leaves behind.
\<close>

theorem close_never_raises:
  "fst (close s) = Inr () \<and>
   fst (close (snd (close s))) = Inr () \<and>
   close (init c) = (Inr (), init c) \<and>
   (driver s = None \<and> session s = None \<longrightarrow> close s = (Inr (), s)) \<and>
   (chrome_start w \<noteq> None \<longrightarrow>
      close (snd (authenticate w (init c))) = (Inr (), snd (authenticate w (init c))))"
proof -
  have 1: "fst (close s') = Inr ()" for s'
    by (auto simp: close_def driver_quit_def session_close_def split: option.splits)
  have 2: "close s' = (Inr (), s')" if "driver s' = None" "session s' = None" for s'
    using that by (simp add: close_def)
  have 3: "driver (snd (authenticate w (init c))) = None \<and>
           session (snd (authenticate w (init c))) = None" if "chrome_start w \<noteq> None"
    using that
    by (auto simp: authenticate_def authenticate_body_def login_and_harvest_def bind_def setup_browser_def
          save_error_screenshot_def init_def Let_def split: option.splits)
  show ?thesis using 1 2 3 by (simp add: init_def)
qed

theorem close_never_raises_witness:
  "chrome_start (demo_world\<lparr>chrome_start := Some ''chromedriver not found''\<rparr>) \<noteq> None \<and>
   driver (init (default_config [] [])) = None \<and>
   session (init (default_config [] [])) = None \<and>
   close (snd (authenticate (demo_world\<lparr>chrome_start := Some ''chromedriver not found''\<rparr>)
                 (init (default_config [] []))))
     = (Inr (), snd (authenticate (demo_world\<lparr>chrome_start := Some ''chromedriver not found''\<rparr>)
                      (init (default_config [] [])))) \<and>
   close (init (default_config [] [])) = (Inr (), init (default_config [] []))"
  using close_never_raises
    [of "init (default_config [] [])" "default_config [] []"
        "demo_world\<lparr>chrome_start := Some ''chromedriver not found''\<rparr>"]
  by (simp add: init_def)

text \<open>
  C10. \<open>close\<close> changes none of the fields \<open>bearer_token\<close>, \<open>session\<close> and \<open>driver\<close>. So
  after a successful \<open>authenticate\<close> followed by \<open>close\<close>, \<open>api_request\<close> still passes
  its guard and sends the request on the closed session: the request is recorded right
  after the two shutdown calls, and its outcome is whatever the network answers.
\<close>

theorem close_keeps_authentication_state:
  "bearer_token (snd (close s)) = bearer_token s \<and>
   session (snd (close s)) = session s \<and>
   driver (snd (close s)) = driver s \<and>
   (fst (authenticate w s) = Inr () \<longrightarrow>
      (\<exists>headers.
         api_request w' endpoint method kw (snd (close (snd (authenticate w s)))) =
           ((case http w' of Inl msg \<Rightarrow> Inl (RequestException msg) | Inr r \<Rightarrow> Inr r),
            (snd (authenticate w s))
              \<lparr>trace := trace (snd (authenticate w s)) @
                 [Quit, SessionClose,
                  Request method (api_base_url (config s) @ ''/'' @ endpoint) headers
                    (kw\<lparr>kw_headers := None\<rparr>)]\<rparr>)))"
proof -
  have fields: "bearer_token (snd (close s')) = bearer_token s' \<and>
      session (snd (close s')) = session s' \<and> driver (snd (close s')) = driver s'" for s'
    by (auto simp: close_def driver_quit_def session_close_def split: option.splits)
  have "\<exists>headers.
         api_request w' endpoint method kw (snd (close (snd (authenticate w s)))) =
           ((case http w' of Inl msg \<Rightarrow> Inl (RequestException msg) | Inr r \<Rightarrow> Inr r),
            (snd (authenticate w s))
              \<lparr>trace := trace (snd (authenticate w s)) @
                 [Quit, SessionClose,
                  Request method (api_base_url (config s) @ ''/'' @ endpoint) headers
                    (kw\<lparr>kw_headers := None\<rparr>)]\<rparr>)"
    if ok: "fst (authenticate w s) = Inr ()"
  proof -
    from authenticate_success [OF ok] obtain d tok sess t where
      tok: "tok \<noteq> []" and
      a: "snd (authenticate w s) =
            s\<lparr>driver := Some d, bearer_token := Some tok, session := Some sess,
              trace := trace s @ t\<rparr>"
      by blast
    show ?thesis
      unfolding a using tok
      by (intro exI [of _ "case kw_headers kw of
                None \<Rightarrow> fixed_headers (config s) tok
              | Some h \<Rightarrow> dict_update (fixed_headers (config s) tok) h"])
        (simp add: close_def driver_quit_def session_close_def api_request_def Let_def
           split: sum.splits option.splits)
  qed
  with fields show ?thesis by blast
qed

theorem close_keeps_authentication_state_witness:
  "fst (authenticate demo_world demo_scraper) = Inr () \<and>
   fst (api_request demo_world ''anwender/berufsbilder/check'' ''GET'' no_kwargs
          (snd (close (snd (authenticate demo_world demo_scraper))))) = Inr demo_response"
proof -
  have h: "fst (authenticate demo_world demo_scraper) = Inr ()"
    by (simp add: demo_authenticate)
  have r: "http demo_world = Inr demo_response"
    by (simp add: demo_world_def ok_world_def)
  from close_keeps_authentication_state
    [of demo_scraper demo_world demo_world
        "''anwender/berufsbilder/check''" "''GET''" no_kwargs]
  show ?thesis using h r by auto
qed

subsection \<open>Searching the serialized log for the bearer token\<close>

lemma takeWhile_nonempty: "(takeWhile P xs \<noteq> []) = (xs \<noteq> [] \<and> P (hd xs))"
  by (cases xs) auto

lemma match_here_bearer_at:
  "match_here s = (if bearer_at s 0 then Some (takeWhile token_char (drop 7 s)) else None)"
  by (auto simp: match_here_def bearer_at_def takeWhile_nonempty hd_drop_conv_nth)

lemma bearer_at_Cons: "bearer_at (c # cs) (Suc i) = bearer_at cs i"
  by (simp add: bearer_at_def add.commute)

lemma re_search_first:
  "bearer_at s i \<Longrightarrow> \<forall>j<i. \<not> bearer_at s j \<Longrightarrow>
     re_search s = Some (takeWhile token_char (drop (i + 7) s))"
proof (induction s arbitrary: i)
  case Nil
  then show ?case by (simp add: bearer_at_def)
next
  case (Cons c cs)
  show ?case
  proof (cases i)
    case 0
    with Cons.prems show ?thesis by (simp add: match_here_bearer_at)
  next
    case (Suc k)
    with Cons.prems have k: "bearer_at cs k" and before: "\<forall>j<k. \<not> bearer_at cs j"
      and here: "\<not> bearer_at (c # cs) 0"
      using bearer_at_Cons [of c cs] by auto
    have "i + 7 = Suc (k + 7)" using Suc by simp
    then have d: "drop (i + 7) (c # cs) = drop (k + 7) cs"
      by (simp only: drop_Suc_Cons)
    from Cons.IH [OF k before] here show ?thesis
      unfolding d by (simp add: match_here_bearer_at)
  qed
qed


text \<open>An occurrence written out: the text before it, the token, the text after it.\<close>

lemma bearer_at_decomposed:
  assumes "log = pre @ ''Bearer '' @ tok @ post" and "tok \<noteq> []"
    and "\<forall>c\<in>set tok. token_char c" and "post = [] \<or> \<not> token_char (hd post)"
  shows "bearer_at log (length pre)"
    and "takeWhile token_char (drop (length pre + 7) log) = tok"
proof -
  from assms(2) obtain c cs where tok: "tok = c # cs" by (cases tok) auto
  with assms(3) have c: "token_char c" by simp
  have nth: "log ! (length pre + 7) = c"
    using assms(1) tok
    by (simp add: nth_append)
  show "bearer_at log (length pre)"
    unfolding bearer_at_def using nth c assms(1) tok by simp
  have "drop (length pre + 7) log = tok @ post"
    using assms(1) by simp
  moreover have "takeWhile token_char (tok @ post) = tok"
    using assms(3,4) by (cases post) (simp_all add: takeWhile_append2)
  ultimately show "takeWhile token_char (drop (length pre + 7) log) = tok" by simp
qed

lemma extract_result:
  "fst (extract_bearer_token w s) =
     (case get_check_page w of
        Some x \<Rightarrow> Inl (Selenium x)
      | None \<Rightarrow>
          (case performance_log w of
             Inl x \<Rightarrow> Inl (Selenium x)
           | Inr log \<Rightarrow>
               (case re_search log of
                  Some token \<Rightarrow> Inr token
                | None \<Rightarrow> Inl (ValueError no_token_found))))"
  by (simp add: extract_bearer_token_def call_def Let_def split: option.splits sum.splits)


text \<open>
  C2. When the pattern occurs in the serialized log, token extraction (the page loaded,
  the log read) returns the token of the first occurrence: if \<open>i\<close> is the first position
  where \<open>Bearer \<close> and a character of the class stand, the result is the run of class
  characters that starts after these seven characters. Written with the text itself: if
  the log is \<open>pre\<close>, then \<open>Bearer \<close>, then a token, then text that does not go on with a
  class character, and no occurrence starts inside \<open>pre\<close>, the result is that token.
\<close>

theorem extract_first_bearer_token:
  "get_check_page w = None \<Longrightarrow> performance_log w = Inr log \<Longrightarrow>
     (bearer_at log i \<and> (\<forall>j<i. \<not> bearer_at log j) \<longrightarrow>
        fst (extract_bearer_token w s) = Inr (takeWhile token_char (drop (i + 7) log))) \<and>
     (log = pre @ ''Bearer '' @ tok @ post \<and> tok \<noteq> [] \<and> (\<forall>c\<in>set tok. token_char c) \<and>
      (post = [] \<or> \<not> token_char (hd post)) \<and> (\<forall>j<length pre. \<not> bearer_at log j) \<longrightarrow>
        fst (extract_bearer_token w s) = Inr tok)"
proof (intro conjI impI)
  assume w: "get_check_page w = None" "performance_log w = Inr log"
  {
    assume "bearer_at log i \<and> (\<forall>j<i. \<not> bearer_at log j)"
    then have "re_search log = Some (takeWhile token_char (drop (i + 7) log))"
      by (simp add: re_search_first)
    with w show "fst (extract_bearer_token w s) = Inr (takeWhile token_char (drop (i + 7) log))"
      by (simp add: extract_result)
  }
  {
    assume a: "log = pre @ ''Bearer '' @ tok @ post \<and> tok \<noteq> [] \<and> (\<forall>c\<in>set tok. token_char c) \<and>
      (post = [] \<or> \<not> token_char (hd post)) \<and> (\<forall>j<length pre. \<not> bearer_at log j)"
    then have at: "bearer_at log (length pre)"
      and tok: "takeWhile token_char (drop (length pre + 7) log) = tok"
      using bearer_at_decomposed [of log pre tok post] by blast+
    from a have "\<forall>j<length pre. \<not> bearer_at log j" by blast
    with at have "re_search log = Some (takeWhile token_char (drop (length pre + 7) log))"
      by (rule re_search_first)
    with w tok show "fst (extract_bearer_token w s) = Inr tok"
      by (simp add: extract_result)
  }
qed

text \<open>
  The two examples of the specification: a log with the single header
  \<open>Bearer abc.def-123_ABC\<close>, and a log with two different tokens, of which the first
  one in the log is returned.
\<close>

theorem extract_first_bearer_token_witness:
  "get_check_page demo_world = None \<and> performance_log demo_world = Inr demo_log \<and>
   bearer_at demo_log 53 \<and> \<not> (\<exists>j<53. bearer_at demo_log j) \<and>
   fst (extract_bearer_token demo_world demo_scraper) = Inr ''abc.def-123_ABC'' \<and>
   two_token_log = ''GET /a Authorization: '' @ ''Bearer '' @ ''first.tok-1'' @ '' | GET /b Authorization: Bearer second_tok.2 |'' \<and>
   \<not> (\<exists>j<length ''GET /a Authorization: ''. bearer_at two_token_log j) \<and>
   fst (extract_bearer_token (demo_world\<lparr>performance_log := Inr two_token_log\<rparr>) demo_scraper)
     = Inr ''first.tok-1''"
proof -
  have w: "get_check_page demo_world = None" "performance_log demo_world = Inr demo_log"
    by (simp_all add: demo_world_def ok_world_def)
  have at: "bearer_at demo_log 53" by code_simp
  have before: "\<forall>j<53. \<not> bearer_at demo_log j" by code_simp
  have tok: "takeWhile token_char (drop (53 + 7) demo_log) = ''abc.def-123_ABC''"
    by (simp add: demo_log_def esc_quote_def token_char_def)
  have one: "fst (extract_bearer_token demo_world demo_scraper) = Inr ''abc.def-123_ABC''"
    using extract_first_bearer_token [OF w, of 53 demo_scraper] at before tok by simp
  have w2: "get_check_page (demo_world\<lparr>performance_log := Inr two_token_log\<rparr>) = None"
    "performance_log (demo_world\<lparr>performance_log := Inr two_token_log\<rparr>) = Inr two_token_log"
    by (simp_all add: demo_world_def ok_world_def)
  have shape: "two_token_log = ''GET /a Authorization: '' @ ''Bearer '' @ ''first.tok-1'' @ '' | GET /b Authorization: Bearer second_tok.2 |''"
    by (simp add: two_token_log_def)
  have "\<forall>j<22. \<not> bearer_at two_token_log j"
    by code_simp
  then have before2: "\<forall>j<length ''GET /a Authorization: ''. \<not> bearer_at two_token_log j"
    by simp
  have cls: "\<forall>c\<in>set ''first.tok-1''. token_char c"
    by (simp add: token_char_def)
  have nxt: "\<not> token_char (hd '' | GET /b Authorization: Bearer second_tok.2 |'')"
    by (simp add: token_char_def)
  have two: "fst (extract_bearer_token (demo_world\<lparr>performance_log := Inr two_token_log\<rparr>) demo_scraper)
     = Inr ''first.tok-1''"
    using extract_first_bearer_token
      [OF w2, of _ _ "''GET /a Authorization: ''" "''first.tok-1''"
         "'' | GET /b Authorization: Bearer second_tok.2 |''"]
      shape before2 cls nxt by blast
  from w at before one shape before2 two show ?thesis by blast
qed



subsection \<open>The request that \<open>api_request\<close> sends\<close>

lemma fold_update_map_of:
  "map_of (fold (\<lambda>(k, v). AList.update k v) h d) = map_of d ++ map_of (rev h)"
proof (induction h arbitrary: d)
  case Nil
  show ?case by simp
next
  case (Cons p h)
  obtain k v where p: "p = (k, v)" by (cases p)
  have "map_of (fold (\<lambda>(k, v). AList.update k v) (p # h) d)
      = map_of (AList.update k v d) ++ map_of (rev h)"
    using Cons.IH [of "AList.update k v d"] p by simp
  also have "\<dots> = (map_of d)(k \<mapsto> v) ++ map_of (rev h)"
    by (simp add: update_conv')
  also have "\<dots> = map_of d ++ (map_of [(k, v)] ++ map_of (rev h))"
    by (rule ext) (simp add: map_add_def split: option.splits)
  also have "\<dots> = map_of d ++ map_of (rev (p # h))"
    using p by simp
  finally show ?case .
qed

lemma map_of_rev_distinct: "distinct (map fst xs) \<Longrightarrow> map_of (rev xs) = map_of xs"
proof (induction xs)
  case Nil
  show ?case by simp
next
  case (Cons p xs)
  obtain k v where p: "p = (k, v)" by (cases p)
  from Cons.prems p have k: "map_of xs k = None" and d: "distinct (map fst xs)"
    by (auto simp: map_of_eq_None_iff)
  have "map_of (rev (p # xs)) = map_of [(k, v)] ++ map_of xs"
    using Cons.IH [OF d] p by simp
  also have "\<dots> = map_of (p # xs)"
    using k p by (intro ext) (simp add: map_add_def split: option.splits)
  finally show ?case .
qed

lemma dict_update_map_of:
  "distinct (map fst h) \<Longrightarrow> map_of (dict_update d h) = map_of d ++ map_of h"
  by (simp add: dict_update_def fold_update_map_of map_of_rev_distinct)

lemma api_request_sends:
  assumes "session s = Some sess" and "bearer_token s = Some token" and "token \<noteq> []"
  shows "api_request w endpoint method kw s =
           ((case http w of Inl msg \<Rightarrow> Inl (RequestException msg) | Inr r \<Rightarrow> Inr r),
            s\<lparr>trace := trace s @
                [Request method (api_base_url (config s) @ ''/'' @ endpoint)
                   (case kw_headers kw of
                      None \<Rightarrow> fixed_headers (config s) token
                    | Some h \<Rightarrow> dict_update (fixed_headers (config s) token) h)
                   (kw\<lparr>kw_headers := None\<rparr>)]\<rparr>)"
  using assms by (simp add: api_request_def Let_def split: sum.splits)

text \<open>
  C6. An authenticated request with endpoint \<open>e\<close> is sent to the URL
  \<open>api_base_url + "/" + e\<close>. Its headers are the fixed set (\<open>Accept: application/json\<close>,
  \<open>Authorization: Bearer <token>\<close>, \<open>Referer: <base_url>/\<close>, \<open>X-Bereich-Intern-Extern\<close>,
  \<open>X-Ex-Abb\<close>, \<open>X-Ihk-Nummer\<close>, \<open>X-Organisation-Nummer-Lang\<close>, \<open>User-Agent\<close>) overridden
  by the caller's headers \<open>H\<close>: a key of \<open>H\<close> is sent with the value \<open>H\<close> gives it, any
  other key with its fixed value. Without caller headers the fixed set is sent as it is.
\<close>

theorem api_request_url_and_headers:
  assumes "session s = Some sess" and "bearer_token s = Some token" and "token \<noteq> []"
    and "kw_headers kw = Some H" and "distinct (map fst H)"
  shows "\<exists>headers.
           trace (snd (api_request w e method kw s)) =
             trace s @ [Request method (api_base_url (config s) @ ''/'' @ e) headers
                          (kw\<lparr>kw_headers := None\<rparr>)] \<and>
           map_of headers =
             map_of [(''Accept'', ''application/json''),
                     (''Authorization'', ''Bearer '' @ token),
                     (''Referer'', base_url (config s) @ ''/''),
                     (''X-Bereich-Intern-Extern'', ''extern''),
                     (''X-Ex-Abb'', ''false''),
                     (''X-Ihk-Nummer'', ihk_nummer (config s)),
                     (''X-Organisation-Nummer-Lang'', organisation_nummer (config s)),
                     (''User-Agent'', user_agent (config s))] ++ map_of H \<and>
           (\<forall>k v. map_of H k = Some v \<longrightarrow> map_of headers k = Some v) \<and>
           (\<forall>k. map_of H k = None \<longrightarrow>
                  map_of headers k = map_of (fixed_headers (config s) token) k) \<and>
           trace (snd (api_request w e method (kw\<lparr>kw_headers := None\<rparr>) s)) =
             trace s @ [Request method (api_base_url (config s) @ ''/'' @ e)
                          (fixed_headers (config s) token) (kw\<lparr>kw_headers := None\<rparr>)]"
proof -
  let ?headers = "dict_update (fixed_headers (config s) token) H"
  have sent: "trace (snd (api_request w e method kw s)) =
      trace s @ [Request method (api_base_url (config s) @ ''/'' @ e) ?headers
                   (kw\<lparr>kw_headers := None\<rparr>)]"
    by (simp add: api_request_sends [OF assms(1-3)] assms(4))
  have m: "map_of ?headers = map_of (fixed_headers (config s) token) ++ map_of H"
    by (rule dict_update_map_of [OF assms(5)])
  have plain: "trace (snd (api_request w e method (kw\<lparr>kw_headers := None\<rparr>) s)) =
      trace s @ [Request method (api_base_url (config s) @ ''/'' @ e)
                   (fixed_headers (config s) token) (kw\<lparr>kw_headers := None\<rparr>)]"
    by (simp add: api_request_sends [OF assms(1-3)])
  have 1: "\<forall>k v. map_of H k = Some v \<longrightarrow> map_of ?headers k = Some v"
    by (simp add: m)
  have 2: "\<forall>k. map_of H k = None \<longrightarrow>
      map_of ?headers k = map_of (fixed_headers (config s) token) k"
    by (simp add: m map_add_def)
  from sent m 1 2 plain show ?thesis
    unfolding fixed_headers_def by blast
qed

text \<open>A caller that asks for HTML: its \<open>Accept\<close> replaces \<open>application/json\<close>.\<close>

theorem api_request_url_and_headers_witness:
  "session authenticated_scraper = Some \<lparr>cookies = []\<rparr> \<and>
   bearer_token authenticated_scraper = Some ''abc.def-123_ABC'' \<and>
   ''abc.def-123_ABC'' \<noteq> [] \<and>
   distinct (map fst [(''Accept'', ''text/html'')]) \<and>
   (\<exists>headers.
      trace (snd (api_request demo_world ''anwender/berufsbilder/check'' ''GET''
                    \<lparr>kw_headers = Some [(''Accept'', ''text/html'')], kw_other = []\<rparr>
                    authenticated_scraper)) =
        trace authenticated_scraper @
          [Request ''GET''
             ''https://service.ihk.de/anwender/anwender-api/v1/anwender/berufsbilder/check''
             headers no_kwargs] \<and>
      map_of headers ''Accept'' = Some ''text/html'' \<and>
      map_of headers ''Authorization'' = Some ''Bearer abc.def-123_ABC'' \<and>
      map_of headers ''X-Ihk-Nummer'' = Some ''108'')"
proof -
  have a: "session authenticated_scraper = Some \<lparr>cookies = []\<rparr>"
    and b: "bearer_token authenticated_scraper = Some ''abc.def-123_ABC''"
    and c: "''abc.def-123_ABC'' \<noteq> []"
    and d: "kw_headers \<lparr>kw_headers = Some [(''Accept'', ''text/html'')], kw_other = []\<rparr>
              = Some [(''Accept'', ''text/html'')]"
    and e: "distinct (map fst [(''Accept'', ''text/html'')])"
    by (simp_all add: authenticated_scraper_def demo_authenticate)
  have cfg: "config authenticated_scraper = default_config ''azubi'' ''geheim''"
    by (simp add: authenticated_scraper_def demo_authenticate)
  from api_request_url_and_headers [OF a b c d e, of demo_world
      "''anwender/berufsbilder/check''" "''GET''"]
  obtain headers where
    t: "trace (snd (api_request demo_world ''anwender/berufsbilder/check'' ''GET''
                    \<lparr>kw_headers = Some [(''Accept'', ''text/html'')], kw_other = []\<rparr>
                    authenticated_scraper)) =
        trace authenticated_scraper @
          [Request ''GET''
             (api_base_url (config authenticated_scraper) @ ''/'' @ ''anwender/berufsbilder/check'')
             headers
             (\<lparr>kw_headers = Some [(''Accept'', ''text/html'')], kw_other = []\<rparr>
                \<lparr>kw_headers := None\<rparr>)]"
    and m: "map_of headers =
             map_of [(''Accept'', ''application/json''),
                     (''Authorization'', ''Bearer '' @ ''abc.def-123_ABC''),
                     (''Referer'', base_url (config authenticated_scraper) @ ''/''),
                     (''X-Bereich-Intern-Extern'', ''extern''),
                     (''X-Ex-Abb'', ''false''),
                     (''X-Ihk-Nummer'', ihk_nummer (config authenticated_scraper)),
                     (''X-Organisation-Nummer-Lang'', organisation_nummer (config authenticated_scraper)),
                     (''User-Agent'', user_agent (config authenticated_scraper))]
               ++ map_of [(''Accept'', ''text/html'')]"
    by blast
  have "map_of headers ''Accept'' = Some ''text/html''"
    and "map_of headers ''Authorization'' = Some ''Bearer abc.def-123_ABC''"
    and "map_of headers ''X-Ihk-Nummer'' = Some ''108''"
    by (simp_all add: m cfg default_config_def)
  moreover from t have "trace (snd (api_request demo_world ''anwender/berufsbilder/check'' ''GET''
                    \<lparr>kw_headers = Some [(''Accept'', ''text/html'')], kw_other = []\<rparr>
                    authenticated_scraper)) =
        trace authenticated_scraper @
          [Request ''GET''
             ''https://service.ihk.de/anwender/anwender-api/v1/anwender/berufsbilder/check''
             headers no_kwargs]"
    by (simp add: cfg default_config_def no_kwargs_def)
  ultimately show ?thesis using a b c e by blast
qed

lemma authenticated_scraper_fields:
  "session authenticated_scraper = Some \<lparr>cookies = []\<rparr>"
  "bearer_token authenticated_scraper = Some ''abc.def-123_ABC''"
  "config authenticated_scraper = default_config ''azubi'' ''geheim''"
  by (simp_all add: authenticated_scraper_def demo_authenticate)

lemma demo_world_answers:
  "http demo_world = Inr demo_response"
  "browser_cookies demo_world = Inr []"
  by (simp_all add: demo_world_def ok_world_def)

text \<open>
  C4, as the code has it. A request that \<open>api_request\<close> really sends (the trace grew) is
  sent with an HTTP session in place and a bearer token that is not empty. Nothing is
  asked of the session's cookie jar.
\<close>

theorem api_request_needs_session_and_token:
  "trace (snd (api_request w e method kw s)) \<noteq> trace s \<Longrightarrow>
     \<exists>sess token. session s = Some sess \<and> bearer_token s = Some token \<and> token \<noteq> []"
  by (auto simp: api_request_def split: option.splits if_splits)

theorem api_request_needs_session_and_token_witness:
  "trace (snd (api_request demo_world ''anwender/berufsbilder/check'' ''GET'' no_kwargs
                 authenticated_scraper)) \<noteq> trace authenticated_scraper \<and>
   (\<exists>sess token. session authenticated_scraper = Some sess \<and>
      bearer_token authenticated_scraper = Some token \<and> token \<noteq> [])"
proof -
  have "trace (snd (api_request demo_world ''anwender/berufsbilder/check'' ''GET'' no_kwargs
                 authenticated_scraper)) \<noteq> trace authenticated_scraper"
    by (simp add: api_request_sends [OF authenticated_scraper_fields(1,2)])
  with api_request_needs_session_and_token
    [of demo_world "''anwender/berufsbilder/check''" "''GET''" no_kwargs authenticated_scraper]
  show ?thesis by blast
qed

text \<open>
  The cookie jar can be empty. A browser that holds no cookie when the session is set up
  gives a session with an empty jar; authentication succeeds all the same, and the next
  \<open>api_request\<close> passes the guard, sends its request and returns the response.
\<close>

theorem api_request_with_empty_cookie_jar:
  "browser_cookies demo_world = Inr [] \<and>
   fst (authenticate demo_world demo_scraper) = Inr () \<and>
   session authenticated_scraper = Some \<lparr>cookies = []\<rparr> \<and>
   bearer_token authenticated_scraper = Some ''abc.def-123_ABC'' \<and>
   api_request demo_world ''anwender/berufsbilder/check'' ''GET'' no_kwargs authenticated_scraper =
     (Inr demo_response,
      authenticated_scraper
        \<lparr>trace := trace authenticated_scraper @
           [Request ''GET''
              ''https://service.ihk.de/anwender/anwender-api/v1/anwender/berufsbilder/check''
              (fixed_headers (default_config ''azubi'' ''geheim'') ''abc.def-123_ABC'')
              no_kwargs]\<rparr>)"
proof -
  have "fst (authenticate demo_world demo_scraper) = Inr ()"
    by (simp add: demo_authenticate)
  moreover have "api_request demo_world ''anwender/berufsbilder/check'' ''GET'' no_kwargs
      authenticated_scraper =
     (Inr demo_response,
      authenticated_scraper
        \<lparr>trace := trace authenticated_scraper @
           [Request ''GET''
              ''https://service.ihk.de/anwender/anwender-api/v1/anwender/berufsbilder/check''
              (fixed_headers (default_config ''azubi'' ''geheim'') ''abc.def-123_ABC'')
              no_kwargs]\<rparr>)"
    by (simp add: api_request_sends [OF authenticated_scraper_fields(1,2)]
          authenticated_scraper_fields(3) demo_world_answers default_config_def no_kwargs_def)
  ultimately show ?thesis
    by (simp add: authenticated_scraper_fields demo_world_answers)
qed

subsection \<open>\<open>get_berufsbilder_check\<close>\<close>

text \<open>What the accessor does with a response, status by status.\<close>

lemma get_berufsbilder_check_outcome:
  assumes "session s = Some sess" and "bearer_token s = Some token" and "token \<noteq> []"
    and "http w = Inr r"
  shows "fst (get_berufsbilder_check w s) =
           (if status_code r = 200
            then (case json_body r of None \<Rightarrow> Inl JSONDecodeError | Some j \<Rightarrow> Inr j)
            else if 400 \<le> status_code r \<and> status_code r < 600 then Inl (HTTPError r)
            else Inr JNull)"
  using assms
  by (simp add: get_berufsbilder_check_def api_request_sends [OF assms(1-3)]
        response_json_def raise_for_status_def)

text \<open>
  C5, where the code misses it. A response with status 204 and an empty body is neither
  200 nor an error status for \<open>raise_for_status\<close>: the accessor ends normally with \<open>None\<close>,
  although there is no parsed body and no \<open>HTTPError\<close> was raised.
\<close>

theorem get_berufsbilder_check_status_204:
  "json_body no_content = None \<and>
   raise_for_status no_content = Inr () \<and>
   fst (get_berufsbilder_check (demo_world\<lparr>http := Inr no_content\<rparr>) authenticated_scraper)
     = Inr JNull"
proof -
  have a: "session authenticated_scraper = Some \<lparr>cookies = []\<rparr>"
    and b: "bearer_token authenticated_scraper = Some ''abc.def-123_ABC''"
    and c: "''abc.def-123_ABC'' \<noteq> []"
    and d: "http (demo_world\<lparr>http := Inr no_content\<rparr>) = Inr no_content"
    by (simp_all add: authenticated_scraper_fields)
  have "fst (get_berufsbilder_check (demo_world\<lparr>http := Inr no_content\<rparr>)
              authenticated_scraper) = Inr JNull"
    unfolding get_berufsbilder_check_outcome [OF a b c d]
    by (simp add: no_content_def)
  then show ?thesis
    by (simp add: no_content_def raise_for_status_def)
qed

subsection \<open>The consent step and the waits of the flow\<close>

text \<open>
  C8. When no clickable consent control appears within the 3-unit timeout, the consent
  step ends without error and with nothing clicked: the wait is the only call it made.
  The flow proceeds: with the browser launched and the homepage loaded, the body of
  \<open>authenticate\<close> is the login, the token extraction and the session setup, run from the
  state in which only the launch, the page load and that wait are recorded. The other
  three waits are fatal: once the steps before it have passed, a timeout of the wait for
  the login link, for the username field or for the password field ends \<open>authenticate\<close>
  with that \<open>TimeoutException\<close>.
\<close>

theorem consent_timeout_is_tolerated:
  "(wait_consent w = Some TimeoutException \<longrightarrow>
      accept_cookies w s =
        (Inr (), s\<lparr>trace := trace s @ [WaitClickable ''xpath'' consent_xpath 3]\<rparr>)) \<and>
   (wait_consent w = Some TimeoutException \<and> chrome_start w = None \<and> get_home w = None \<longrightarrow>
      authenticate_body w s =
        login_and_harvest w
          (s\<lparr>driver := Some (Chrome (browser_options (config s))),
             trace := trace s @
               [Launch (browser_options (config s)), Get (base_url (config s)),
                WaitClickable ''xpath'' consent_xpath 3]\<rparr>)) \<and>
   (chrome_start w = None \<and> get_home w = None \<and> consent_passes w \<and>
    username (config s) \<noteq> [] \<and> password (config s) \<noteq> [] \<longrightarrow>
      (wait_login_link w = Some TimeoutException \<longrightarrow>
         fst (authenticate w s) = Inl (Selenium TimeoutException)) \<and>
      (wait_login_link w = None \<and> click_login_link w = None \<and>
       wait_username w = Some TimeoutException \<longrightarrow>
         fst (authenticate w s) = Inl (Selenium TimeoutException)) \<and>
      (wait_login_link w = None \<and> click_login_link w = None \<and>
       wait_username w = None \<and> send_username w = None \<and>
       find_continue w = None \<and> click_continue w = None \<and>
       wait_password w = Some TimeoutException \<longrightarrow>
         fst (authenticate w s) = Inl (Selenium TimeoutException)))"
proof (intro conjI impI)
  assume "wait_consent w = Some TimeoutException"
  then show "accept_cookies w s =
      (Inr (), s\<lparr>trace := trace s @ [WaitClickable ''xpath'' consent_xpath 3]\<rparr>)"
    by (simp add: accept_cookies_def call_def)
next
  assume "wait_consent w = Some TimeoutException \<and> chrome_start w = None \<and> get_home w = None"
  then show "authenticate_body w s =
      login_and_harvest w
        (s\<lparr>driver := Some (Chrome (browser_options (config s))),
           trace := trace s @
             [Launch (browser_options (config s)), Get (base_url (config s)),
              WaitClickable ''xpath'' consent_xpath 3]\<rparr>)"
    by (simp add: authenticate_body_def bind_def setup_browser_def accept_cookies_def
          call_def Let_def)
next
  assume a: "chrome_start w = None \<and> get_home w = None \<and> consent_passes w \<and>
    username (config s) \<noteq> [] \<and> password (config s) \<noteq> []"
    and b: "wait_login_link w = Some TimeoutException"
  from a b show "fst (authenticate w s) = Inl (Selenium TimeoutException)"
    by (auto simp: consent_passes_def authenticate_def authenticate_body_def
          login_and_harvest_def bind_def setup_browser_def accept_cookies_def
          perform_login_def call_def Let_def)
next
  assume a: "chrome_start w = None \<and> get_home w = None \<and> consent_passes w \<and>
    username (config s) \<noteq> [] \<and> password (config s) \<noteq> []"
    and b: "wait_login_link w = None \<and> click_login_link w = None \<and>
       wait_username w = Some TimeoutException"
  from a b show "fst (authenticate w s) = Inl (Selenium TimeoutException)"
    by (auto simp: consent_passes_def authenticate_def authenticate_body_def
          login_and_harvest_def bind_def setup_browser_def accept_cookies_def
          perform_login_def call_def Let_def)
next
  assume a: "chrome_start w = None \<and> get_home w = None \<and> consent_passes w \<and>
    username (config s) \<noteq> [] \<and> password (config s) \<noteq> []"
    and b: "wait_login_link w = None \<and> click_login_link w = None \<and>
       wait_username w = None \<and> send_username w = None \<and>
       find_continue w = None \<and> click_continue w = None \<and>
       wait_password w = Some TimeoutException"
  from a b show "fst (authenticate w s) = Inl (Selenium TimeoutException)"
    by (auto simp: consent_passes_def authenticate_def authenticate_body_def
          login_and_harvest_def bind_def setup_browser_def accept_cookies_def
          perform_login_def call_def Let_def)
qed

text \<open>
  The banner never shows and everything else answers: the consent step records its wait
  only, and authentication succeeds. With the banner absent, each of the three later
  waits, when it times out, ends the authentication.
\<close>

theorem consent_timeout_is_tolerated_witness:
  "wait_consent banner_absent_world = Some TimeoutException \<and>
   chrome_start banner_absent_world = None \<and> get_home banner_absent_world = None \<and>
   consent_passes banner_absent_world \<and>
   accept_cookies banner_absent_world demo_scraper =
     (Inr (), demo_scraper\<lparr>trace := [WaitClickable ''xpath'' consent_xpath 3]\<rparr>) \<and>
   fst (authenticate banner_absent_world demo_scraper) = Inr () \<and>
   fst (authenticate (banner_absent_world\<lparr>wait_login_link := Some TimeoutException\<rparr>)
          demo_scraper) = Inl (Selenium TimeoutException) \<and>
   fst (authenticate (banner_absent_world\<lparr>wait_username := Some TimeoutException\<rparr>)
          demo_scraper) = Inl (Selenium TimeoutException) \<and>
   fst (authenticate (banner_absent_world\<lparr>wait_password := Some TimeoutException\<rparr>)
          demo_scraper) = Inl (Selenium TimeoutException)"
proof -
  have w: "wait_consent banner_absent_world = Some TimeoutException"
    "chrome_start banner_absent_world = None" "get_home banner_absent_world = None"
    "consent_passes banner_absent_world"
    by (simp_all add: banner_absent_world_def demo_world_def ok_world_def consent_passes_def)
  have s: "username (config demo_scraper) \<noteq> []" "password (config demo_scraper) \<noteq> []"
    "trace demo_scraper = []"
    by (simp_all add: demo_scraper_def init_def default_config_def)
  have step: "accept_cookies banner_absent_world demo_scraper =
     (Inr (), demo_scraper\<lparr>trace := [WaitClickable ''xpath'' consent_xpath 3]\<rparr>)"
    using consent_timeout_is_tolerated [of banner_absent_world demo_scraper] w s by simp
  have "authenticate_body banner_absent_world demo_scraper =
      login_and_harvest banner_absent_world
        (demo_scraper\<lparr>driver := Some (Chrome (browser_options (config demo_scraper))),
           trace := trace demo_scraper @
             [Launch (browser_options (config demo_scraper)), Get (base_url (config demo_scraper)),
              WaitClickable ''xpath'' consent_xpath 3]\<rparr>)"
    using consent_timeout_is_tolerated [of banner_absent_world demo_scraper] w by blast
  then have ok: "fst (authenticate banner_absent_world demo_scraper) = Inr ()"
    by (simp add: authenticate_def login_and_harvest_def bind_def call_def
        perform_login_def extract_bearer_token_def setup_session_def
        banner_absent_world_def demo_world_def demo_scraper_def demo_log_def esc_quote_def
        ok_world_def init_def match_here_def token_char_def Let_def default_config_def)
  have w1: "chrome_start (banner_absent_world\<lparr>wait_login_link := Some TimeoutException\<rparr>) = None"
    "get_home (banner_absent_world\<lparr>wait_login_link := Some TimeoutException\<rparr>) = None"
    "consent_passes (banner_absent_world\<lparr>wait_login_link := Some TimeoutException\<rparr>)"
    "wait_login_link (banner_absent_world\<lparr>wait_login_link := Some TimeoutException\<rparr>)
       = Some TimeoutException"
    using w by (simp_all add: consent_passes_def)
  have f1: "fst (authenticate (banner_absent_world\<lparr>wait_login_link := Some TimeoutException\<rparr>)
          demo_scraper) = Inl (Selenium TimeoutException)"
    using consent_timeout_is_tolerated
      [of "banner_absent_world\<lparr>wait_login_link := Some TimeoutException\<rparr>" demo_scraper]
      w1 s by blast
  have w2: "chrome_start (banner_absent_world\<lparr>wait_username := Some TimeoutException\<rparr>) = None"
    "get_home (banner_absent_world\<lparr>wait_username := Some TimeoutException\<rparr>) = None"
    "consent_passes (banner_absent_world\<lparr>wait_username := Some TimeoutException\<rparr>)"
    "wait_login_link (banner_absent_world\<lparr>wait_username := Some TimeoutException\<rparr>) = None"
    "click_login_link (banner_absent_world\<lparr>wait_username := Some TimeoutException\<rparr>) = None"
    "wait_username (banner_absent_world\<lparr>wait_username := Some TimeoutException\<rparr>)
       = Some TimeoutException"
    using w by (simp_all add: consent_passes_def banner_absent_world_def demo_world_def
        ok_world_def)
  have f2: "fst (authenticate (banner_absent_world\<lparr>wait_username := Some TimeoutException\<rparr>)
          demo_scraper) = Inl (Selenium TimeoutException)"
    using consent_timeout_is_tolerated
      [of "banner_absent_world\<lparr>wait_username := Some TimeoutException\<rparr>" demo_scraper]
      w2 s by blast
  have w3: "chrome_start (banner_absent_world\<lparr>wait_password := Some TimeoutException\<rparr>) = None"
    "get_home (banner_absent_world\<lparr>wait_password := Some TimeoutException\<rparr>) = None"
    "consent_passes (banner_absent_world\<lparr>wait_password := Some TimeoutException\<rparr>)"
    "wait_login_link (banner_absent_world\<lparr>wait_password := Some TimeoutException\<rparr>) = None"
    "click_login_link (banner_absent_world\<lparr>wait_password := Some TimeoutException\<rparr>) = None"
    "wait_username (banner_absent_world\<lparr>wait_password := Some TimeoutException\<rparr>) = None"
    "send_username (banner_absent_world\<lparr>wait_password := Some TimeoutException\<rparr>) = None"
    "find_continue (banner_absent_world\<lparr>wait_password := Some TimeoutException\<rparr>) = None"
    "click_continue (banner_absent_world\<lparr>wait_password := Some TimeoutException\<rparr>) = None"
    "wait_password (banner_absent_world\<lparr>wait_password := Some TimeoutException\<rparr>)
       = Some TimeoutException"
    using w by (simp_all add: consent_passes_def banner_absent_world_def demo_world_def
        ok_world_def)
  have f3: "fst (authenticate (banner_absent_world\<lparr>wait_password := Some TimeoutException\<rparr>)
          demo_scraper) = Inl (Selenium TimeoutException)"
    using consent_timeout_is_tolerated
      [of "banner_absent_world\<lparr>wait_password := Some TimeoutException\<rparr>" demo_scraper]
      w3 s by blast
  from w step ok f1 f2 f3 show ?thesis by blast
qed

subsection \<open>Missing credentials\<close>





end
